theory Spec2Isabelle
  imports Complex_Main
begin

section \<open>JavaScript values\<close>

text \<open>
  The program is TypeScript that runs as JavaScript in a browser. A string is a list of
  code units; each \<^typ>\<open>char\<close> stands for one code unit below 256. A value that comes
  from the network is typed \<^verbatim>\<open>any\<close> in the source, so it is modelled as an
  untyped JavaScript value: what \<^verbatim>\<open>JSON.parse\<close> can produce, and
  \<^verbatim>\<open>undefined\<close>, which reading an absent property produces.
\<close>

datatype js =
    JUndefined
  | JNull
  | JBool bool
  | JNum rat
  | JStr string
  | JArr "js list"
  | JObj "(string \<times> js) list"

text \<open>What a \<^verbatim>\<open>throw\<close> or a rejected promise carries.\<close>

datatype exn =
    TypeError
  | SyntaxError
  | Error string
  | Rejected string

text \<open>ToBoolean: the falsy values are undefined, null, false, 0, and the empty string.\<close>

fun truthy :: "js \<Rightarrow> bool" where
  "truthy JUndefined = False"
| "truthy JNull = False"
| "truthy (JBool b) = b"
| "truthy (JNum n) = (n \<noteq> 0)"
| "truthy (JStr s) = (s \<noteq> [])"
| "truthy (JArr xs) = True"
| "truthy (JObj kvs) = True"

text \<open>The operator \<^verbatim>\<open>a || b\<close> on values.\<close>

definition orElse :: "js \<Rightarrow> js \<Rightarrow> js" where
  "orElse a b = (if truthy a then a else b)"

text \<open>
  Reading a property \<^verbatim>\<open>v.k\<close>. On undefined and null it throws a TypeError. On an
  object, which is the list of its own properties (the first pair for a name counts), it
  yields the own property, and undefined when there is none; on the other values it
  yields undefined. This is the behaviour for a name \<open>k\<close> that no built-in prototype
  defines, which holds for the names the program reads from a payload
  (\<^verbatim>\<open>city\<close>, \<^verbatim>\<open>region_code\<close>, \<^verbatim>\<open>country\<close>) and from a
  consultation result (\<^verbatim>\<open>recommendations\<close>, \<^verbatim>\<open>roiEstimate\<close>,
  \<^verbatim>\<open>estimatedCostRange\<close>).
\<close>

fun getProp :: "js \<Rightarrow> string \<Rightarrow> exn + js" where
  "getProp JUndefined k = Inl TypeError"
| "getProp JNull k = Inl TypeError"
| "getProp (JObj kvs) k = Inr (case map_of kvs k of Some v \<Rightarrow> v | None \<Rightarrow> JUndefined)"
| "getProp v k = Inr JUndefined"

text \<open>
  The numbers held in component state: the literals 250, 15000 and 0, and what
  \<^verbatim>\<open>parseInt\<close> returns, which is NaN or an integer. The integer is the
  mathematical value of the digits; \<open>-0\<close> is \<open>0\<close>. JavaScript holds the double nearest
  to that integer, which is the integer itself up to 53 bits and Infinity beyond the range
  of a double; the double is zero, or NaN, exactly when the integer is. Where the program
  prints the number, the model rounds it first (\<open>roundToDouble\<close> below).
\<close>

datatype jsnum = NaN | Number int

fun truthyNum :: "jsnum \<Rightarrow> bool" where
  "truthyNum NaN = False"
| "truthyNum (Number n) = (n \<noteq> 0)"

definition orElseNum :: "jsnum \<Rightarrow> jsnum \<Rightarrow> jsnum" where
  "orElseNum a b = (if truthyNum a then a else b)"

section \<open>Types of the application\<close>

text \<open>
  \<^verbatim>\<open>UserLocation\<close> is declared in \<^verbatim>\<open>types.ts\<close> with three string fields and a
  flag. The components receive it as a typed prop. The object that
  \<^verbatim>\<open>detectLocation\<close> builds takes its three values from a payload of type
  \<^verbatim>\<open>any\<close>, which TypeScript does not check, so there the fields hold JavaScript
  values. The record is polymorphic in the type of the three fields.
\<close>

record 'v Location =
  city :: 'v
  region :: 'v
  country :: 'v
  isDetected :: bool

type_synonym UserLocation = "string Location"

text \<open>What \<^verbatim>\<open>fetch\<close> resolves to: the flag and the outcome of \<^verbatim>\<open>response.json()\<close>.\<close>

record Response =
  ok :: bool
  json :: "exn + js"

text \<open>The regional knowledge table's entries, as the components read them.\<close>

record PricingTier =
  rentalEstimate :: string
  basePrice :: string

record ADUPricing =
  studio :: PricingTier
  oneBed :: PricingTier
  twoBed :: PricingTier

record RegionEntry =
  aduPricing :: ADUPricing
  policyUrl :: string

record Addons =
  energyIndependence :: bool
  smartSecurity :: bool
  carbonNeutral :: bool
  zonalComfort :: bool

record ADUConfig =
  size_cfg :: string
  intendedUse :: string
  addons :: Addons

record SolarNeeds =
  monthlyBill :: jsnum
  roofType :: string
  energyPriority :: string

record CommercialNeeds =
  facilityType :: string
  squareFootage :: jsnum
  primaryGoal :: string

text \<open>The request of \<^verbatim>\<open>ai.models.generateContent\<close>.\<close>

datatype schemaType = STRING | ARRAY | OBJECT

datatype schema =
  Schema (schemaType: schemaType) (items: "schema option")
    (properties: "(string \<times> schema) list") (required: "string list")

record GenerationConfig =
  responseMimeType :: string
  responseSchema :: schema

record GenerateContentParams =
  model :: string
  contents :: string
  config_gen :: GenerationConfig

text \<open>
  What an operation does to the outside world, in order: the network calls it issues and
  the lines it writes to the console.
\<close>

datatype effect =
    Fetch string
  | GenerateContent GenerateContentParams
  | GetADUConsultation ADUConfig UserLocation
  | GetSolarConsultation SolarNeeds UserLocation
  | ConsoleWarn string exn
  | ConsoleError exn

fun isNetworkCall :: "effect \<Rightarrow> bool" where
  "isNetworkCall (ConsoleWarn m e) = False"
| "isNetworkCall (ConsoleError e) = False"
| "isNetworkCall c = True"

fun isConsole :: "effect \<Rightarrow> bool" where
  "isConsole (ConsoleWarn m e) = True"
| "isConsole (ConsoleError e) = True"
| "isConsole c = False"

section \<open>services/locationService.ts\<close>

definition fallbackLocation :: "js Location" where
  "fallbackLocation =
     \<lparr>city = JStr ''St. Catharines'', region = JStr ''ON'', country = JStr ''Canada'',
      isDetected = False\<rparr>"

text \<open>
  The body of the \<^verbatim>\<open>try\<close> block. The argument is the settled promise of
  \<^verbatim>\<open>fetch('https://ipwho.is/')\<close>. Every \<^verbatim>\<open>throw\<close> is \<open>Inl\<close>.
\<close>

definition detectLocation_try :: "exn + Response \<Rightarrow> exn + js Location" where
  "detectLocation_try fetched =
     (case fetched of
        Inl err \<Rightarrow> Inl err
      | Inr response \<Rightarrow>
          if \<not> ok response then Inl (Error ''Network response was not ok'')
          else
            (case json response of
               Inl err \<Rightarrow> Inl err
             | Inr data \<Rightarrow>
                 (case getProp data ''city'' of
                    Inl err \<Rightarrow> Inl err
                  | Inr c \<Rightarrow>
                      (case getProp data ''region_code'' of
                         Inl err \<Rightarrow> Inl err
                       | Inr r \<Rightarrow>
                           (case getProp data ''country'' of
                              Inl err \<Rightarrow> Inl err
                            | Inr n \<Rightarrow>
                                Inr \<lparr>city = orElse c (JStr ''St. Catharines''),
                                     region = orElse r (JStr ''ON''),
                                     country = orElse n (JStr ''Canada''),
                                     isDetected = True\<rparr>)))))"

text \<open>
  \<^verbatim>\<open>detectLocation\<close>: the argument answers a request to a URL. The result is the
  settled promise (\<open>Inl\<close> would be a rejection) and the effects in order.
\<close>

definition detectLocation ::
  "(string \<Rightarrow> exn + Response) \<Rightarrow> (exn + js Location) \<times> effect list" where
  "detectLocation net =
     (case detectLocation_try (net ''https://ipwho.is/'') of
        Inr loc \<Rightarrow> (Inr loc, [Fetch ''https://ipwho.is/''])
      | Inl err \<Rightarrow>
          (Inr fallbackLocation,
           [Fetch ''https://ipwho.is/'',
            ConsoleWarn ''Location detection failed. Defaulting to St. Catharines, ON.'' err]))"

text \<open>Networks used to evaluate \<^const>\<open>detectLocation\<close> on concrete answers.\<close>

definition netOffline :: "string \<Rightarrow> exn + Response" where
  "netOffline url = Inl (Rejected ''Failed to fetch'')"

definition netBody :: "js \<Rightarrow> string \<Rightarrow> exn + Response" where
  "netBody data url = Inr \<lparr>ok = True, json = Inr data\<rparr>"

definition payloadNiagara :: js where
  "payloadNiagara =
     JObj [(''city'', JStr ''Niagara Falls''), (''region_code'', JStr ''''),
           (''country'', JNull)]"

definition payloadNumericCity :: js where
  "payloadNumericCity = JObj [(''city'', JNum 42), (''region_code'', JStr ''BC'')]"

text \<open>Whether a value is a non-empty string, and whether it is a string or falsy.\<close>

definition isNonEmptyString :: "js \<Rightarrow> bool" where
  "isNonEmptyString v = (case v of JStr s \<Rightarrow> s \<noteq> [] | _ \<Rightarrow> False)"

definition stringOrFalsy :: "js \<Rightarrow> bool" where
  "stringOrFalsy v = (case v of JStr s \<Rightarrow> True | _ \<Rightarrow> \<not> truthy v)"

section \<open>data/businessKnowledge.ts\<close>

text \<open>
  The module that defines \<^verbatim>\<open>regionalKnowledge\<close> is not among the sources, so the own
  properties of that object are a parameter of every function that reads it: a map from a
  region code to its entry. The components read the object with
  \<^verbatim>\<open>k in regionalKnowledge\<close> and \<^verbatim>\<open>regionalKnowledge[k]\<close>. Both follow the
  prototype chain of an ordinary object, so the names that every object inherits from
  \<^verbatim>\<open>Object.prototype\<close> are visible to them as well; what they name there is a
  function or an object, which is truthy and has neither \<^verbatim>\<open>aduPricing\<close> nor
  \<^verbatim>\<open>policyUrl\<close>.
\<close>

type_synonym RegionalKnowledge = "string \<rightharpoonup> RegionEntry"

definition objectPrototypeKeys :: "string list" where
  "objectPrototypeKeys =
     [''constructor'', ''__defineGetter__'', ''__defineSetter__'', ''hasOwnProperty'',
      ''__lookupGetter__'', ''__lookupSetter__'', ''isPrototypeOf'',
      ''propertyIsEnumerable'', ''toString'', ''valueOf'', ''__proto__'',
      ''toLocaleString'']"

text \<open>The operator \<^verbatim>\<open>k in regionalKnowledge\<close>.\<close>

definition hasProperty :: "RegionalKnowledge \<Rightarrow> string \<Rightarrow> bool" where
  "hasProperty rk k = (k \<in> dom rk \<or> k \<in> set objectPrototypeKeys)"

text \<open>The value of \<^verbatim>\<open>regionalKnowledge[k]\<close>; \<open>Missing\<close> is \<^verbatim>\<open>undefined\<close>.\<close>

datatype tableValue = Own RegionEntry | Inherited | Missing

definition lookupKnowledge :: "RegionalKnowledge \<Rightarrow> string \<Rightarrow> tableValue" where
  "lookupKnowledge rk k =
     (case rk k of
        Some entry \<Rightarrow> Own entry
      | None \<Rightarrow> if k \<in> set objectPrototypeKeys then Inherited else Missing)"

text \<open>
  A sample table, used to evaluate the components on concrete inputs. Its keys are the two
  region codes the components name (\<^verbatim>\<open>ON\<close>, \<^verbatim>\<open>BC\<close>) and \<^verbatim>\<open>Default\<close>.
\<close>

definition entryON :: RegionEntry where
  "entryON =
     \<lparr>aduPricing =
        \<lparr>studio = \<lparr>rentalEstimate = ''$1,600 - $1,900'', basePrice = ''$145,000''\<rparr>,
         oneBed = \<lparr>rentalEstimate = ''$1,900 - $2,300'', basePrice = ''$185,000''\<rparr>,
         twoBed = \<lparr>rentalEstimate = ''$2,400 - $2,900'', basePrice = ''$240,000''\<rparr>\<rparr>,
      policyUrl = ''https://example.org/on''\<rparr>"

definition entryBC :: RegionEntry where
  "entryBC =
     \<lparr>aduPricing =
        \<lparr>studio = \<lparr>rentalEstimate = ''$2,000'', basePrice = ''$160,000''\<rparr>,
         oneBed = \<lparr>rentalEstimate = ''$2,500'', basePrice = ''$200,000''\<rparr>,
         twoBed = \<lparr>rentalEstimate = ''$3,100'', basePrice = ''$260,000''\<rparr>\<rparr>,
      policyUrl = ''https://example.org/bc''\<rparr>"

definition entryDefault :: RegionEntry where
  "entryDefault = entryON\<lparr>policyUrl := ''https://example.org/canada''\<rparr>"

definition sampleKnowledge :: RegionalKnowledge where
  "sampleKnowledge =
     map_of [(''ON'', entryON), (''BC'', entryBC), (''Default'', entryDefault)]"

definition locationIn :: "string \<Rightarrow> UserLocation" where
  "locationIn code =
     \<lparr>city = ''St. Catharines'', region = code, country = ''Canada'', isDetected = True\<rparr>"

section \<open>components/ADUSection.tsx\<close>

record ADUState =
  config :: ADUConfig
  loading :: bool
  result :: js
  isEnlarged :: bool
  openHighlight :: "nat option"

definition initialADU :: ADUState where
  "initialADU =
     \<lparr>config =
        \<lparr>size_cfg = ''studio'', intendedUse = ''rental'',
         addons = \<lparr>energyIndependence = False, smartSecurity = False,
                   carbonNeutral = False, zonalComfort = False\<rparr>\<rparr>,
      loading = False, result = JNull, isEnlarged = False, openHighlight = None\<rparr>"

definition activeRegion :: "RegionalKnowledge \<Rightarrow> UserLocation \<Rightarrow> string" where
  "activeRegion rk location =
     (if hasProperty rk (region location) then region location else ''ON'')"

text \<open>Which \<^verbatim>\<open>case\<close> of \<^verbatim>\<open>switch (config.size)\<close> is taken.\<close>

datatype sizeCase = CaseStudio | CaseOneBed | CaseTwoBed | CaseDefault

definition switchSize :: "string \<Rightarrow> sizeCase" where
  "switchSize s =
     (if s = ''studio'' then CaseStudio
      else if s = ''1-bedroom'' then CaseOneBed
      else if s = ''2-bedroom'' then CaseTwoBed
      else CaseDefault)"

text \<open>
  The value of \<^verbatim>\<open>regionalKnowledge[activeRegion].aduPricing\<close>: reading a property of
  undefined throws, an inherited member has no such property (\<open>None\<close> is undefined).
\<close>

definition pricingOf :: "tableValue \<Rightarrow> exn + ADUPricing option" where
  "pricingOf v =
     (case v of
        Missing \<Rightarrow> Inl TypeError
      | Inherited \<Rightarrow> Inr None
      | Own entry \<Rightarrow> Inr (Some (aduPricing entry)))"

definition rentalIncome :: "RegionalKnowledge \<Rightarrow> string \<Rightarrow> ADUConfig \<Rightarrow> exn + string" where
  "rentalIncome rk active cfg =
     (case pricingOf (lookupKnowledge rk active) of
        Inl err \<Rightarrow> Inl err
      | Inr pricing \<Rightarrow>
          (case switchSize (size_cfg cfg) of
             CaseStudio \<Rightarrow>
               (case pricing of None \<Rightarrow> Inl TypeError
                | Some p \<Rightarrow> Inr (rentalEstimate (studio p)))
           | CaseOneBed \<Rightarrow>
               (case pricing of None \<Rightarrow> Inl TypeError
                | Some p \<Rightarrow> Inr (rentalEstimate (oneBed p)))
           | CaseTwoBed \<Rightarrow>
               (case pricing of None \<Rightarrow> Inl TypeError
                | Some p \<Rightarrow> Inr (rentalEstimate (twoBed p)))
           | CaseDefault \<Rightarrow> Inr ''$0''))"

definition basePrice_adu :: "RegionalKnowledge \<Rightarrow> string \<Rightarrow> ADUConfig \<Rightarrow> exn + string" where
  "basePrice_adu rk active cfg =
     (case pricingOf (lookupKnowledge rk active) of
        Inl err \<Rightarrow> Inl err
      | Inr pricing \<Rightarrow>
          (case switchSize (size_cfg cfg) of
             CaseStudio \<Rightarrow>
               (case pricing of None \<Rightarrow> Inl TypeError
                | Some p \<Rightarrow> Inr (basePrice (studio p)))
           | CaseOneBed \<Rightarrow>
               (case pricing of None \<Rightarrow> Inl TypeError
                | Some p \<Rightarrow> Inr (basePrice (oneBed p)))
           | CaseTwoBed \<Rightarrow>
               (case pricing of None \<Rightarrow> Inl TypeError
                | Some p \<Rightarrow> Inr (basePrice (twoBed p)))
           | CaseDefault \<Rightarrow> Inr ''$0''))"

text \<open>
  In \<^verbatim>\<open>regionalKnowledge[activeRegion] || regionalKnowledge['Default']\<close> the right
  operand is evaluated exactly when the left one is falsy, that is undefined.
\<close>

definition takesDefaultEntry :: "RegionalKnowledge \<Rightarrow> string \<Rightarrow> bool" where
  "takesDefaultEntry rk active = (lookupKnowledge rk active = Missing)"

text \<open>\<^verbatim>\<open>policyLink\<close>, the same in both components; \<open>None\<close> is undefined.\<close>

definition policyLink :: "RegionalKnowledge \<Rightarrow> string \<Rightarrow> exn + string option" where
  "policyLink rk active =
     (case (if takesDefaultEntry rk active then lookupKnowledge rk ''Default''
            else lookupKnowledge rk active) of
        Missing \<Rightarrow> Inl TypeError
      | Inherited \<Rightarrow> Inr None
      | Own entry \<Rightarrow> Inr (Some (policyUrl entry)))"

text \<open>
  \<^verbatim>\<open>fetchSpecs\<close>. \<^verbatim>\<open>getADUConsultation\<close> lives in
  \<^verbatim>\<open>services/geminiService\<close>, which is not among the sources: the first argument
  is the settled promise it returns for a configuration and a location.
\<close>

definition fetchSpecs ::
  "(ADUConfig \<Rightarrow> UserLocation \<Rightarrow> exn + js) \<Rightarrow> UserLocation \<Rightarrow> ADUState
     \<Rightarrow> ADUState \<times> effect list" where
  "fetchSpecs getADUConsultation location s =
     (let s1 = s\<lparr>loading := True\<rparr> in
      case getADUConsultation (config s) location of
        Inr res \<Rightarrow>
          (s1\<lparr>result := res, loading := False\<rparr>,
           [GetADUConsultation (config s) location])
      | Inl err \<Rightarrow>
          (s1\<lparr>loading := False\<rparr>,
           [GetADUConsultation (config s) location, ConsoleError err]))"

datatype addonKey = EnergyIndependence | SmartSecurity | CarbonNeutral | ZonalComfort

fun toggleAddon :: "addonKey \<Rightarrow> ADUState \<Rightarrow> ADUState" where
  "toggleAddon EnergyIndependence s =
     s\<lparr>config := (config s)\<lparr>addons := (addons (config s))
        \<lparr>energyIndependence := \<not> energyIndependence (addons (config s))\<rparr>\<rparr>\<rparr>"
| "toggleAddon SmartSecurity s =
     s\<lparr>config := (config s)\<lparr>addons := (addons (config s))
        \<lparr>smartSecurity := \<not> smartSecurity (addons (config s))\<rparr>\<rparr>\<rparr>"
| "toggleAddon CarbonNeutral s =
     s\<lparr>config := (config s)\<lparr>addons := (addons (config s))
        \<lparr>carbonNeutral := \<not> carbonNeutral (addons (config s))\<rparr>\<rparr>\<rparr>"
| "toggleAddon ZonalComfort s =
     s\<lparr>config := (config s)\<lparr>addons := (addons (config s))
        \<lparr>zonalComfort := \<not> zonalComfort (addons (config s))\<rparr>\<rparr>\<rparr>"

text \<open>The buttons the component renders: their ids, in order.\<close>

definition sizeOptions :: "string list" where
  "sizeOptions = [''studio'', ''1-bedroom'', ''2-bedroom'']"

definition addonOptions :: "addonKey list" where
  "addonOptions = [EnergyIndependence, ZonalComfort, SmartSecurity]"

text \<open>The events of the component: clicks on what it renders, and a finished
  \<^verbatim>\<open>fetchSpecs\<close> with the outcome of its call.\<close>

datatype ADUEvent =
    ClickSizeButton nat
  | ClickAddonButton nat
  | SpecsFetched "exn + js"
  | ClickImage
  | CloseEnlarged
  | ClickHighlight nat

fun stepADU :: "UserLocation \<Rightarrow> ADUState \<Rightarrow> ADUEvent \<Rightarrow> ADUState" where
  "stepADU location s (ClickSizeButton i) =
     (if i < length sizeOptions
      then s\<lparr>config := (config s)\<lparr>size_cfg := sizeOptions ! i\<rparr>\<rparr> else s)"
| "stepADU location s (ClickAddonButton i) =
     (if i < length addonOptions then toggleAddon (addonOptions ! i) s else s)"
| "stepADU location s (SpecsFetched outcome) =
     fst (fetchSpecs (\<lambda>cfg loc. outcome) location s)"
| "stepADU location s ClickImage = s\<lparr>isEnlarged := True\<rparr>"
| "stepADU location s CloseEnlarged = s\<lparr>isEnlarged := False\<rparr>"
| "stepADU location s (ClickHighlight idx) =
     (if idx < 4
      then s\<lparr>openHighlight := (if openHighlight s = Some idx then None else Some idx)\<rparr>
      else s)"

definition runADU :: "UserLocation \<Rightarrow> ADUEvent list \<Rightarrow> ADUState" where
  "runADU location events = foldl (stepADU location) initialADU events"

subsection \<open>renderRentalPrice\<close>

text \<open>\<^verbatim>\<open>price.split('-')\<close>: the pieces between the separators, at least one.\<close>

fun splitOn :: "char \<Rightarrow> string \<Rightarrow> string list" where
  "splitOn sep [] = [[]]"
| "splitOn sep (c # cs) =
     (if c = sep then [] # splitOn sep cs
      else (case splitOn sep cs of
              [] \<Rightarrow> [[c]]
            | p # ps \<Rightarrow> (c # p) # ps))"

text \<open>White space and line terminators among the code units below 256.\<close>

definition isWhiteSpace :: "char \<Rightarrow> bool" where
  "isWhiteSpace c =
     (c \<in> set [CHR 0x09, CHR 0x0A, CHR 0x0B, CHR 0x0C, CHR 0x0D, CHR 0x20, CHR 0xA0])"

definition trim :: "string \<Rightarrow> string" where
  "trim s = rev (dropWhile isWhiteSpace (rev (dropWhile isWhiteSpace s)))"

text \<open>\<^verbatim>\<open>parts[i]\<close>: \<open>None\<close> is undefined, on which \<^verbatim>\<open>.trim()\<close> throws.\<close>

definition index :: "'a list \<Rightarrow> nat \<Rightarrow> 'a option" where
  "index xs i = (if i < length xs then Some (xs ! i) else None)"

text \<open>
  What the function renders: two lines holding the two interpolated values (the first
  followed by a dash, the second by the label CAD), or one line holding the price and the
  label.
\<close>

datatype priceView = TwoLines string string | OneLine string

definition renderRentalPrice :: "string \<Rightarrow> exn + priceView" where
  "renderRentalPrice price =
     (if CHR ''-'' \<in> set price then
        (let parts = splitOn CHR ''-'' price in
         case index parts 0 of
           None \<Rightarrow> Inl TypeError
         | Some p0 \<Rightarrow>
             (case index parts 1 of
                None \<Rightarrow> Inl TypeError
              | Some p1 \<Rightarrow> Inr (TwoLines (trim p0) (trim p1))))
      else Inr (OneLine price))"

section \<open>components/SolarSection.tsx\<close>

record SolarState =
  mode :: string
  resNeeds :: SolarNeeds
  comNeeds :: CommercialNeeds
  loading_s :: bool
  result_s :: js

definition initialSolar :: SolarState where
  "initialSolar =
     \<lparr>mode = ''residential'',
      resNeeds = \<lparr>monthlyBill = Number 250, roofType = ''asphalt-shingle'',
                  energyPriority = ''savings''\<rparr>,
      comNeeds = \<lparr>facilityType = ''industrial'', squareFootage = Number 15000,
                  primaryGoal = ''cost-reduction''\<rparr>,
      loading_s = False, result_s = JNull\<rparr>"

subsection \<open>parseInt and number formatting\<close>

text \<open>
  The value of a digit or letter as \<^verbatim>\<open>parseInt\<close> reads it, and whether it is a
  digit of the radix.
\<close>

definition digitValue :: "char \<Rightarrow> nat option" where
  "digitValue c =
     (let n = (of_char c :: nat) in
      if 48 \<le> n \<and> n \<le> 57 then Some (n - 48)
      else if 97 \<le> n \<and> n \<le> 122 then Some (n - 87)
      else if 65 \<le> n \<and> n \<le> 90 then Some (n - 55)
      else None)"

definition isRadixDigit :: "nat \<Rightarrow> char \<Rightarrow> bool" where
  "isRadixDigit r c = (case digitValue c of Some d \<Rightarrow> d < r | None \<Rightarrow> False)"

definition digitsValue :: "nat \<Rightarrow> string \<Rightarrow> nat" where
  "digitsValue r ds =
     foldl (\<lambda>acc c. acc * r + (case digitValue c of Some d \<Rightarrow> d | None \<Rightarrow> 0)) 0 ds"

text \<open>
  \<^verbatim>\<open>parseInt(text)\<close> with no radix: leading white space is skipped, a sign is read,
  a prefix \<^verbatim>\<open>0x\<close> or \<^verbatim>\<open>0X\<close> selects radix 16, the longest run of digits is
  read, and NaN is returned when that run is empty. The result is the mathematical value
  of the run.
\<close>

definition parseInt :: "string \<Rightarrow> jsnum" where
  "parseInt inputString =
     (let s = dropWhile isWhiteSpace inputString;
          sign = (if s \<noteq> [] \<and> hd s = CHR ''-'' then - 1 else 1 :: int);
          s1 = (if s \<noteq> [] \<and> (hd s = CHR ''+'' \<or> hd s = CHR ''-'') then tl s else s);
          hex = (take 2 s1 = ''0x'' \<or> take 2 s1 = ''0X'');
          r = (if hex then 16 else 10 :: nat);
          s2 = (if hex then drop 2 s1 else s1);
          z = takeWhile (isRadixDigit r) s2
      in if z = [] then NaN else Number (sign * int (digitsValue r z)))"

fun showNat :: "nat \<Rightarrow> string" where
  "showNat n =
     (if n < 10 then [''0123456789'' ! n]
      else showNat (n div 10) @ [''0123456789'' ! (n mod 10)])"

text \<open>
  The double nearest to a natural number, ties to the even significand: a number of at
  most 53 bits is a double; a longer one keeps its 53 leading bits, rounded. \<open>None\<close> is
  Infinity.
\<close>

fun bitLength :: "nat \<Rightarrow> nat" where
  "bitLength n = (if n = 0 then 0 else Suc (bitLength (n div 2)))"

definition roundToDouble :: "nat \<Rightarrow> nat option" where
  "roundToDouble n =
     (if bitLength n \<le> 53 then Some n
      else
        (let e = bitLength n - 53;
             q = n div 2 ^ e;
             r = n mod 2 ^ e;
             half = 2 ^ (e - 1);
             q' = (if half < r \<or> (r = half \<and> odd q) then q + 1 else q);
             v = q' * 2 ^ e
         in if 2 ^ 1024 \<le> v then None else Some v))"

fun decimalLength :: "nat \<Rightarrow> nat" where
  "decimalLength n = (if n = 0 then 0 else Suc (decimalLength (n div 10)))"

text \<open>
  Number::toString on a double \<open>v\<close> that is a positive integer of \<open>d\<close> decimal digits
  prints the shortest digits that read back as \<open>v\<close>. The search tries \<open>k = 1, 2, \<dots>\<close>
  digits: the two \<open>k\<close>-digit numbers around \<open>v\<close>, followed by \<open>d - k\<close> zeros, and of two
  that read back as \<open>v\<close> the closer one (the even one in a tie). The result is the digits
  and the number of zeros that follow them.
\<close>

function shortestDigits :: "nat \<Rightarrow> nat \<Rightarrow> nat \<Rightarrow> nat \<times> nat" where
  "shortestDigits v d k =
     (if d \<le> k then (v, 0)
      else
        (let p = d - k;
             lo = v div 10 ^ p;
             hi = lo + 1;
             loOk = (roundToDouble (lo * 10 ^ p) = Some v);
             hiOk = (roundToDouble (hi * 10 ^ p) = Some v)
         in if loOk \<and> hiOk then
              (if v - lo * 10 ^ p < hi * 10 ^ p - v \<or>
                  (v - lo * 10 ^ p = hi * 10 ^ p - v \<and> even lo)
               then (lo, p) else (hi, p))
            else if loOk then (lo, p)
            else if hiOk then (hi, p)
            else shortestDigits v d (Suc k)))"
  by pat_completeness auto
termination
  by (relation "measure (\<lambda>(v, d, k). d - k)") auto

fun stripZeros :: "nat \<Rightarrow> nat \<Rightarrow> nat \<times> nat" where
  "stripZeros s p =
     (if 0 < s \<and> s mod 10 = 0 then stripZeros (s div 10) (Suc p) else (s, p))"

text \<open>
  The digits are printed in full, with their zeros, when the number has at most 21 digits,
  and in exponent notation otherwise.
\<close>

definition printInteger :: "nat \<Rightarrow> string" where
  "printInteger v =
     (if v = 0 then ''0''
      else
        (let (s, p) = (case shortestDigits v (decimalLength v) 1 of (s0, p0) \<Rightarrow> stripZeros s0 p0);
             ds = showNat s;
             k = length ds;
             n = k + p
         in if n \<le> 21 then ds @ replicate p (CHR ''0'')
            else [hd ds] @ (if 1 < k then ''.'' @ tl ds else []) @ ''e+'' @ showNat (n - 1)))"

text \<open>
  A number inside a template literal: Number::toString of the double nearest to the
  integer.
\<close>

fun numberToString :: "jsnum \<Rightarrow> string" where
  "numberToString NaN = ''NaN''"
| "numberToString (Number n) =
     (case roundToDouble (nat \<bar>n\<bar>) of
        None \<Rightarrow> (if n < 0 then ''-Infinity'' else ''Infinity'')
      | Some v \<Rightarrow> (if n < 0 then ''-'' @ printInteger v else printInteger v))"

subsection \<open>handleCommercialConsult\<close>

definition commercialPrompt :: "UserLocation \<Rightarrow> CommercialNeeds \<Rightarrow> string" where
  \<open>commercialPrompt location needs =
     ''Act as an expert Commercial Solar Analyst for Power Solution Canada.'' @ [CHR 0x0A] @
     ''      Location: '' @ city location @ '', '' @ region location @ ''.'' @ [CHR 0x0A] @
     ''      Facility: '' @ facilityType needs @ '', '' @
        numberToString (squareFootage needs) @ '' sqft.'' @ [CHR 0x0A] @
     ''      Goal: '' @ primaryGoal needs @ ''.'' @ [CHR 0x0A] @
     ''      '' @ [CHR 0x0A] @
     ''      Generate a professional commercial solar infrastructure brief.'' @ [CHR 0x0A] @
     ''      - 5 high-impact "Core Specifications" (concise, max 12 words each).'' @
        [CHR 0x0A] @
     ''      - Include mentions of Net-metering, industrial-grade panels, and business energy grants.'' @
        [CHR 0x0A] @
     ''      - Return exactly: summary, recommendations[], estimatedCostRange, and roiEstimate.''\<close>

definition commercialSchema :: schema where
  "commercialSchema =
     Schema OBJECT None
       [(''summary'', Schema STRING None [] []),
        (''recommendations'', Schema ARRAY (Some (Schema STRING None [] [])) [] []),
        (''estimatedCostRange'', Schema STRING None [] []),
        (''roiEstimate'', Schema STRING None [] [])]
       [''summary'', ''recommendations'', ''estimatedCostRange'', ''roiEstimate'']"

definition commercialRequest :: "UserLocation \<Rightarrow> CommercialNeeds \<Rightarrow> GenerateContentParams" where
  "commercialRequest location needs =
     \<lparr>model = ''gemini-3-flash-preview'',
      contents = commercialPrompt location needs,
      config_gen =
        \<lparr>responseMimeType = ''application/json'', responseSchema = commercialSchema\<rparr>\<rparr>"

text \<open>
  \<^verbatim>\<open>handleCommercialConsult\<close>. The first argument is the settled promise of
  \<^verbatim>\<open>ai.models.generateContent\<close> for a request; it resolves to the response's
  \<^verbatim>\<open>text\<close>, a string or undefined (\<open>None\<close>). The second is the built-in
  \<^verbatim>\<open>JSON.parse\<close>, which receives its argument converted to a string.
\<close>

definition handleCommercialConsult ::
  "(GenerateContentParams \<Rightarrow> exn + string option) \<Rightarrow> (string \<Rightarrow> exn + js) \<Rightarrow>
     UserLocation \<Rightarrow> SolarState \<Rightarrow> SolarState \<times> effect list" where
  "handleCommercialConsult generateContent JSON_parse location s =
     (let s1 = s\<lparr>loading_s := True\<rparr>;
          request = commercialRequest location (comNeeds s)
      in case generateContent request of
           Inl err \<Rightarrow> (s1\<lparr>loading_s := False\<rparr>, [GenerateContent request, ConsoleError err])
         | Inr txt \<Rightarrow>
             (case JSON_parse (case txt of None \<Rightarrow> ''undefined'' | Some t \<Rightarrow> t) of
                Inl err \<Rightarrow>
                  (s1\<lparr>loading_s := False\<rparr>, [GenerateContent request, ConsoleError err])
              | Inr parsed \<Rightarrow>
                  (s1\<lparr>result_s := parsed, loading_s := False\<rparr>, [GenerateContent request])))"

text \<open>
  \<^verbatim>\<open>handleResidentialConsult\<close>. \<^verbatim>\<open>getSolarConsultation\<close> lives in
  \<^verbatim>\<open>services/geminiService\<close>, which is not among the sources: the first argument
  is the settled promise it returns.
\<close>

definition handleResidentialConsult ::
  "(SolarNeeds \<Rightarrow> UserLocation \<Rightarrow> exn + js) \<Rightarrow> UserLocation \<Rightarrow> SolarState
     \<Rightarrow> SolarState \<times> effect list" where
  "handleResidentialConsult getSolarConsultation location s =
     (let s1 = s\<lparr>loading_s := True\<rparr> in
      case getSolarConsultation (resNeeds s) location of
        Inr res \<Rightarrow>
          (s1\<lparr>result_s := res, loading_s := False\<rparr>,
           [GetSolarConsultation (resNeeds s) location])
      | Inl err \<Rightarrow>
          (s1\<lparr>loading_s := False\<rparr>,
           [GetSolarConsultation (resNeeds s) location, ConsoleError err]))"

subsection \<open>The result column\<close>

text \<open>
  What React accepts as a child: text, numbers, and arrays of children; null, undefined
  and booleans render nothing; a plain object makes the render throw.
\<close>

fun validChild :: "js \<Rightarrow> bool" where
  "validChild (JObj kvs) = False"
| "validChild (JArr xs) = list_all validChild xs"
| "validChild v = True"

fun isArray :: "js \<Rightarrow> bool" where
  "isArray (JArr xs) = True"
| "isArray v = False"

definition regionName :: "string \<Rightarrow> string" where
  "regionName code =
     (if code = ''ON'' then ''Ontario''
      else if code = ''BC'' then ''British Columbia''
      else code)"

text \<open>
  What the right column shows: the placeholder, or the panel with the values it
  interpolates, in the order of the JSX: the recommendations, the name of the region, the
  target of the grants link, the region code in the link's text, the ROI estimate and the
  cost range.
\<close>

datatype resultView =
    Placeholder
  | ResultPanel "js list" string "string option" string js js

text \<open>
  The conditional \<^verbatim>\<open>result ? panel : placeholder\<close>. The first argument is the value of
  the \<^verbatim>\<open>policyLink\<close> hook. The panel calls \<^verbatim>\<open>result.recommendations.map\<close>, which
  throws a TypeError unless \<^verbatim>\<open>recommendations\<close> is an array.
\<close>

definition renderResultColumn ::
  "string option \<Rightarrow> UserLocation \<Rightarrow> SolarState \<Rightarrow> exn + resultView" where
  "renderResultColumn link location s =
     (if truthy (result_s s) then
        (case getProp (result_s s) ''recommendations'' of
           Inl err \<Rightarrow> Inl err
         | Inr recommendations \<Rightarrow>
             (case recommendations of
                JArr recs \<Rightarrow>
                  (case getProp (result_s s) ''roiEstimate'' of
                     Inl err \<Rightarrow> Inl err
                   | Inr roi \<Rightarrow>
                       (case getProp (result_s s) ''estimatedCostRange'' of
                          Inl err \<Rightarrow> Inl err
                        | Inr cost \<Rightarrow>
                            if list_all validChild recs \<and> validChild roi \<and> validChild cost
                            then Inr (ResultPanel recs (regionName (region location)) link
                                        (region location) roi cost)
                            else Inl (Error ''Objects are not valid as a React child'')))
              | _ \<Rightarrow> Inl TypeError))
      else Inr Placeholder)"

subsection \<open>Input handlers and events\<close>

definition onMonthlyBillChange :: "string \<Rightarrow> SolarState \<Rightarrow> SolarState" where
  "onMonthlyBillChange targetValue s =
     s\<lparr>resNeeds := (resNeeds s)\<lparr>monthlyBill := orElseNum (parseInt targetValue) (Number 0)\<rparr>\<rparr>"

definition onSquareFootageChange :: "string \<Rightarrow> SolarState \<Rightarrow> SolarState" where
  "onSquareFootageChange targetValue s =
     s\<lparr>comNeeds := (comNeeds s)\<lparr>squareFootage := orElseNum (parseInt targetValue) (Number 0)\<rparr>\<rparr>"

definition priorityOptions :: "string list" where
  "priorityOptions = [''savings'', ''independence'']"

definition facilityOptions :: "string list" where
  "facilityOptions = [''industrial'', ''office'', ''retail'', ''multi-unit'']"

text \<open>
  The events of the component. The bill input and the priority buttons are rendered in
  residential mode, the facility buttons and the square-footage input in commercial mode.
  A consultation settles with the outcome of its call, whatever the mode is by then.
\<close>

datatype SolarEvent =
    ClickResidential
  | ClickCommercial
  | BillInput string
  | SqftInput string
  | ClickPriority nat
  | ClickFacility nat
  | ResidentialConsult "exn + js"
  | CommercialConsult "exn + string option"

fun stepSolar ::
  "(string \<Rightarrow> exn + js) \<Rightarrow> UserLocation \<Rightarrow> SolarState \<Rightarrow> SolarEvent \<Rightarrow> SolarState" where
  "stepSolar JSON_parse location s ClickResidential =
     s\<lparr>mode := ''residential'', result_s := JNull\<rparr>"
| "stepSolar JSON_parse location s ClickCommercial =
     s\<lparr>mode := ''commercial'', result_s := JNull\<rparr>"
| "stepSolar JSON_parse location s (BillInput v) =
     (if mode s = ''residential'' then onMonthlyBillChange v s else s)"
| "stepSolar JSON_parse location s (SqftInput v) =
     (if mode s = ''residential'' then s else onSquareFootageChange v s)"
| "stepSolar JSON_parse location s (ClickPriority i) =
     (if mode s = ''residential'' \<and> i < length priorityOptions
      then s\<lparr>resNeeds := (resNeeds s)\<lparr>energyPriority := priorityOptions ! i\<rparr>\<rparr> else s)"
| "stepSolar JSON_parse location s (ClickFacility i) =
     (if mode s \<noteq> ''residential'' \<and> i < length facilityOptions
      then s\<lparr>comNeeds := (comNeeds s)\<lparr>facilityType := facilityOptions ! i\<rparr>\<rparr> else s)"
| "stepSolar JSON_parse location s (ResidentialConsult outcome) =
     fst (handleResidentialConsult (\<lambda>needs loc. outcome) location s)"
| "stepSolar JSON_parse location s (CommercialConsult outcome) =
     fst (handleCommercialConsult (\<lambda>request. outcome) JSON_parse location s)"

definition runSolar ::
  "(string \<Rightarrow> exn + js) \<Rightarrow> UserLocation \<Rightarrow> SolarEvent list \<Rightarrow> SolarState" where
  "runSolar JSON_parse location events = foldl (stepSolar JSON_parse location) initialSolar events"

subsection \<open>Answers of the services, for evaluation\<close>

definition serviceDown :: "'a \<Rightarrow> UserLocation \<Rightarrow> exn + js" where
  "serviceDown input location = Inl (Rejected ''503'')"

definition aiDown :: "GenerateContentParams \<Rightarrow> exn + string option" where
  "aiDown request = Inl (Rejected ''503'')"

definition aiAnswers :: "string \<Rightarrow> GenerateContentParams \<Rightarrow> exn + string option" where
  "aiAnswers t request = Inr (Some t)"

definition sampleText :: string where
  \<open>sampleText =
     ''{"summary":"S","recommendations":["R"],"estimatedCostRange":"$1","roiEstimate":"5y"}''\<close>

definition sampleResult :: js where
  "sampleResult =
     JObj [(''summary'', JStr ''S''), (''recommendations'', JArr [JStr ''R'']),
           (''estimatedCostRange'', JStr ''$1''), (''roiEstimate'', JStr ''5y'')]"

text \<open>
  \<^verbatim>\<open>JSON.parse\<close> on the three JSON texts the examples use: the sample, the empty
  object and null. Any other text used there is not JSON.
\<close>

definition jsonParseSample :: "string \<Rightarrow> exn + js" where
  "jsonParseSample t =
     (if t = sampleText then Inr sampleResult
      else if t = ''{}'' then Inr (JObj [])
      else if t = ''null'' then Inr JNull
      else Inl SyntaxError)"

text \<open>The state after switching to the commercial form and one successful consultation.\<close>

definition consultedSolar :: SolarState where
  "consultedSolar =
     runSolar jsonParseSample (locationIn ''ON'')
       [ClickCommercial, CommercialConsult (Inr (Some sampleText))]"

section \<open>Properties of detectLocation\<close>

lemma detectLocation_try_Inr_iff:
  "(\<exists>loc. detectLocation_try fetched = Inr loc) \<longleftrightarrow>
   (\<exists>r d. fetched = Inr r \<and> ok r \<and> json r = Inr d \<and> d \<noteq> JNull \<and> d \<noteq> JUndefined)"
proof (cases fetched)
  case (Inl err)
  then show ?thesis by (simp add: detectLocation_try_def)
next
  case (Inr r)
  show ?thesis
  proof (cases "json r")
    case (Inl err)
    with Inr show ?thesis by (simp add: detectLocation_try_def)
  next
    case jr: (Inr d)
    with Inr show ?thesis by (cases d) (simp_all add: detectLocation_try_def)
  qed
qed

lemma detectLocation_try_isDetected:
  "detectLocation_try fetched = Inr loc \<Longrightarrow> isDetected loc"
  by (auto simp: detectLocation_try_def split: sum.splits if_splits)

lemma detectLocation_effects:
  "filter isNetworkCall (snd (detectLocation net)) = [Fetch ''https://ipwho.is/'']"
  by (simp add: detectLocation_def split: sum.splits)

lemma detectLocation_failure_modes:
  "net ''https://ipwho.is/'' = Inl e \<Longrightarrow> fst (detectLocation net) = Inr fallbackLocation"
  "net ''https://ipwho.is/'' = Inr r \<Longrightarrow> \<not> ok r \<Longrightarrow> fst (detectLocation net) = Inr fallbackLocation"
  "net ''https://ipwho.is/'' = Inr r \<Longrightarrow> json r = Inl e \<Longrightarrow> fst (detectLocation net) = Inr fallbackLocation"
  "net ''https://ipwho.is/'' = Inr r \<Longrightarrow> json r = Inr JNull \<Longrightarrow> fst (detectLocation net) = Inr fallbackLocation"
  by (simp_all add: detectLocation_def detectLocation_try_def)

text \<open>
  Claim C1. \<^verbatim>\<open>detectLocation\<close> issues exactly one HTTP request and never rejects. As
  stated, the claim makes \<open>isDetected\<close> true exactly when the call succeeded; that fails
  for a response whose body parses to \<^verbatim>\<open>null\<close>: the request resolved, the response
  is ok and the body parsed, yet reading \<^verbatim>\<open>data.city\<close> throws and the fallback is
  returned.
\<close>

theorem detectLocation_null_body_counterexample:
  "netBody JNull ''https://ipwho.is/'' = Inr \<lparr>ok = True, json = Inr JNull\<rparr> \<and>
   fst (detectLocation (netBody JNull)) = Inr fallbackLocation \<and>
   \<not> isDetected fallbackLocation"
  by (simp add: netBody_def detectLocation_def detectLocation_try_def fallbackLocation_def)

text \<open>
  Claim C1, amended. Every invocation issues exactly one network call, the request to
  \<^verbatim>\<open>https://ipwho.is/\<close>, and resolves. \<open>isDetected\<close> is true exactly when the
  request resolved, the response was ok, and the body parsed to a value other than null;
  in every other case the result is the hardcoded fallback location.
\<close>

theorem detectLocation_settles:
  "\<exists>loc. fst (detectLocation net) = Inr loc \<and>
     length (filter isNetworkCall (snd (detectLocation net))) = 1 \<and>
     (isDetected loc \<longleftrightarrow>
        (\<exists>r d. net ''https://ipwho.is/'' = Inr r \<and> ok r \<and> json r = Inr d \<and>
               d \<noteq> JNull \<and> d \<noteq> JUndefined)) \<and>
     (\<not> isDetected loc \<longrightarrow> loc = fallbackLocation)"
proof (cases "detectLocation_try (net ''https://ipwho.is/'')")
  case (Inl err)
  then have no: "\<not> (\<exists>loc. detectLocation_try (net ''https://ipwho.is/'') = Inr loc)"
    by simp
  have res: "fst (detectLocation net) = Inr fallbackLocation"
    using Inl by (simp add: detectLocation_def)
  have "\<not> isDetected fallbackLocation"
    by (simp add: fallbackLocation_def)
  with res no show ?thesis
    unfolding detectLocation_try_Inr_iff
    by (simp add: detectLocation_effects)
next
  case (Inr loc)
  then have yes: "\<exists>l. detectLocation_try (net ''https://ipwho.is/'') = Inr l"
    by blast
  have res: "fst (detectLocation net) = Inr loc"
    using Inr by (simp add: detectLocation_def)
  have "isDetected loc"
    using Inr by (rule detectLocation_try_isDetected)
  with res yes show ?thesis
    unfolding detectLocation_try_Inr_iff
    by (simp add: detectLocation_effects)
qed

theorem detectLocation_settles_witness:
  "fst (detectLocation netOffline) = Inr fallbackLocation \<and>
   length (filter isNetworkCall (snd (detectLocation netOffline))) = 1 \<and>
   fst (detectLocation (netBody payloadNiagara)) =
     Inr \<lparr>city = JStr ''Niagara Falls'', region = JStr ''ON'', country = JStr ''Canada'',
          isDetected = True\<rparr> \<and>
   length (filter isNetworkCall (snd (detectLocation (netBody payloadNiagara)))) = 1"
proof -
  have "fst (detectLocation (netBody payloadNiagara)) =
     Inr \<lparr>city = JStr ''Niagara Falls'', region = JStr ''ON'', country = JStr ''Canada'',
          isDetected = True\<rparr>"
    by (simp add: detectLocation_def detectLocation_try_def netBody_def payloadNiagara_def
        orElse_def)
  then show ?thesis
    using detectLocation_settles [of netOffline]
      detectLocation_settles [of "netBody payloadNiagara"]
    by (auto simp: netOffline_def)
qed

text \<open>
  Claim C9. The defaults are substituted per field, but two parts of the claim fail. A
  truthy value that is not a string passes through \<^verbatim>\<open>||\<close> unchanged: with the
  number 42 as the payload's city, the returned city is not a string. And a request that
  succeeds with a body that parses to \<^verbatim>\<open>null\<close> does not keep \<open>isDetected\<close> true:
  the fallback is returned.
\<close>

theorem detectLocation_numeric_city_counterexample:
  "fst (detectLocation (netBody payloadNumericCity)) =
     Inr \<lparr>city = JNum 42, region = JStr ''BC'', country = JStr ''Canada'', isDetected = True\<rparr> \<and>
   \<not> isNonEmptyString (JNum 42) \<and>
   fst (detectLocation (netBody JNull)) = Inr fallbackLocation \<and>
   \<not> isDetected fallbackLocation"
  by (simp add: netBody_def detectLocation_def detectLocation_try_def payloadNumericCity_def
      orElse_def isNonEmptyString_def fallbackLocation_def)

lemma orElse_truthy: "truthy d \<Longrightarrow> truthy (orElse v d)"
  by (simp add: orElse_def)

lemma orElse_string: "stringOrFalsy v \<Longrightarrow> s \<noteq> [] \<Longrightarrow> isNonEmptyString (orElse v (JStr s))"
  by (cases v) (simp_all add: orElse_def stringOrFalsy_def isNonEmptyString_def)

lemma getProp_defined:
  "d \<noteq> JNull \<Longrightarrow> d \<noteq> JUndefined \<Longrightarrow> \<exists>v. getProp d k = Inr v"
  by (cases d) simp_all

text \<open>
  Claim C9, amended. When the request succeeds and the body parses to a value other than
  null, each falsy one of \<^verbatim>\<open>city\<close>, \<^verbatim>\<open>region_code\<close> and \<^verbatim>\<open>country\<close> is
  replaced by its default while \<open>isDetected\<close> is true, so every field of the returned
  location is truthy; a field is a non-empty string whenever the payload's value for it is
  a string or falsy.
\<close>

theorem detectLocation_defaults:
  assumes "net ''https://ipwho.is/'' = Inr r" and "ok r" and "json r = Inr d"
    and "d \<noteq> JNull" and "d \<noteq> JUndefined"
  shows "\<exists>loc c g n.
     getProp d ''city'' = Inr c \<and> getProp d ''region_code'' = Inr g \<and>
     getProp d ''country'' = Inr n \<and>
     fst (detectLocation net) = Inr loc \<and> isDetected loc \<and>
     city loc = (if truthy c then c else JStr ''St. Catharines'') \<and>
     region loc = (if truthy g then g else JStr ''ON'') \<and>
     country loc = (if truthy n then n else JStr ''Canada'') \<and>
     truthy (city loc) \<and> truthy (region loc) \<and> truthy (country loc) \<and>
     (stringOrFalsy c \<longrightarrow> isNonEmptyString (city loc)) \<and>
     (stringOrFalsy g \<longrightarrow> isNonEmptyString (region loc)) \<and>
     (stringOrFalsy n \<longrightarrow> isNonEmptyString (country loc))"
proof -
  from assms(4,5) obtain c g n where
    props: "getProp d ''city'' = Inr c" "getProp d ''region_code'' = Inr g"
      "getProp d ''country'' = Inr n"
    using getProp_defined by blast
  let ?loc = "\<lparr>city = orElse c (JStr ''St. Catharines''), region = orElse g (JStr ''ON''),
                country = orElse n (JStr ''Canada''), isDetected = True\<rparr>"
  have "detectLocation_try (net ''https://ipwho.is/'') = Inr ?loc"
    using assms(1-3) props by (simp add: detectLocation_try_def)
  then have res: "fst (detectLocation net) = Inr ?loc"
    by (simp add: detectLocation_def)
  have t: "truthy (city ?loc)" "truthy (region ?loc)" "truthy (country ?loc)"
    by (simp_all add: orElse_truthy)
  have str: "stringOrFalsy c \<longrightarrow> isNonEmptyString (city ?loc)"
    "stringOrFalsy g \<longrightarrow> isNonEmptyString (region ?loc)"
    "stringOrFalsy n \<longrightarrow> isNonEmptyString (country ?loc)"
    by (simp_all add: orElse_string)
  have "getProp d ''city'' = Inr c \<and> getProp d ''region_code'' = Inr g \<and>
     getProp d ''country'' = Inr n \<and>
     fst (detectLocation net) = Inr ?loc \<and> isDetected ?loc \<and>
     city ?loc = (if truthy c then c else JStr ''St. Catharines'') \<and>
     region ?loc = (if truthy g then g else JStr ''ON'') \<and>
     country ?loc = (if truthy n then n else JStr ''Canada'') \<and>
     truthy (city ?loc) \<and> truthy (region ?loc) \<and> truthy (country ?loc) \<and>
     (stringOrFalsy c \<longrightarrow> isNonEmptyString (city ?loc)) \<and>
     (stringOrFalsy g \<longrightarrow> isNonEmptyString (region ?loc)) \<and>
     (stringOrFalsy n \<longrightarrow> isNonEmptyString (country ?loc))"
    using props res t str by (simp add: orElse_def)
  then show ?thesis by blast
qed

theorem detectLocation_defaults_witness:
  "fst (detectLocation (netBody payloadNiagara)) =
     Inr \<lparr>city = JStr ''Niagara Falls'', region = JStr ''ON'', country = JStr ''Canada'',
          isDetected = True\<rparr>"
  using detectLocation_defaults [of "netBody payloadNiagara" "\<lparr>ok = True, json = Inr payloadNiagara\<rparr>"
      payloadNiagara]
  by (auto simp: netBody_def payloadNiagara_def)

section \<open>Properties of ADUSection\<close>

subsection \<open>The region lookup\<close>

lemma hasProperty_iff:
  "k \<notin> set objectPrototypeKeys \<Longrightarrow> hasProperty rk k \<longleftrightarrow> k \<in> dom rk"
  by (auto simp: hasProperty_def)

lemma activeRegion_own_name:
  assumes "region location \<notin> set objectPrototypeKeys"
  shows "activeRegion rk location = (if region location \<in> dom rk then region location else ''ON'')"
  using assms by (simp add: activeRegion_def hasProperty_iff)

lemma activeRegion_is_key:
  assumes "region location \<notin> set objectPrototypeKeys" and "rk ''ON'' = Some on"
  shows "activeRegion rk location \<in> dom rk"
  using assms by (auto simp: activeRegion_own_name)

lemma policyLink_own: "rk active = Some entry \<Longrightarrow> policyLink rk active = Inr (Some (policyUrl entry))"
  by (simp add: policyLink_def takesDefaultEntry_def lookupKnowledge_def)

lemma activeRegion_inherited:
  assumes "k \<in> set objectPrototypeKeys"
  shows "activeRegion rk (location\<lparr>region := k\<rparr>) = k"
  using assms by (simp add: activeRegion_def hasProperty_def)

lemma inherited_lookup_throws:
  assumes "k \<in> set objectPrototypeKeys" and "rk k = None"
    and "size_cfg cfg \<in> set sizeOptions"
  shows "rentalIncome rk k cfg = Inl TypeError" and "basePrice_adu rk k cfg = Inl TypeError"
    and "policyLink rk k = Inr None"
  using assms
  by (auto simp: rentalIncome_def basePrice_adu_def policyLink_def takesDefaultEntry_def
      lookupKnowledge_def pricingOf_def switchSize_def sizeOptions_def)

text \<open>
  Claim C3. The active region is \<^verbatim>\<open>location.region\<close> when that code is a key of the
  table and \<^verbatim>\<open>ON\<close> otherwise, and what is displayed comes from the selected entry.
  The lemmas above show this for every region code that is not a name inherited from
  \<^verbatim>\<open>Object.prototype\<close>. For an inherited name the operator \<^verbatim>\<open>in\<close> answers
  true although the table has no such key: the active region is that name, no entry is
  selected, the pricing lookups throw and the policy link is undefined.
\<close>

theorem activeRegion_inherited_name:
  "activeRegion sampleKnowledge (locationIn ''toString'') = ''toString'' \<and>
   sampleKnowledge ''toString'' = None \<and>
   rentalIncome sampleKnowledge ''toString'' (config initialADU) = Inl TypeError \<and>
   basePrice_adu sampleKnowledge ''toString'' (config initialADU) = Inl TypeError \<and>
   policyLink sampleKnowledge ''toString'' = Inr None"
  by (simp add: activeRegion_def hasProperty_def objectPrototypeKeys_def sampleKnowledge_def
      locationIn_def rentalIncome_def basePrice_adu_def policyLink_def takesDefaultEntry_def
      lookupKnowledge_def pricingOf_def switchSize_def initialADU_def)

subsection \<open>Pricing tiers\<close>

text \<open>
  For an active region that has an entry in the table, the rental income and the base
  price are the \<open>rentalEstimate\<close> and \<open>basePrice\<close> of the tier that the unit size
  selects, and two configurations of the same size give the same two values, whatever
  their add-ons are.
\<close>

lemma pricing_follows_size:
  assumes "rk active = Some entry"
  shows
    "(size_cfg cfg = ''studio'' \<longrightarrow>
        rentalIncome rk active cfg = Inr (rentalEstimate (studio (aduPricing entry))) \<and>
        basePrice_adu rk active cfg = Inr (basePrice (studio (aduPricing entry)))) \<and>
     (size_cfg cfg = ''1-bedroom'' \<longrightarrow>
        rentalIncome rk active cfg = Inr (rentalEstimate (oneBed (aduPricing entry))) \<and>
        basePrice_adu rk active cfg = Inr (basePrice (oneBed (aduPricing entry)))) \<and>
     (size_cfg cfg = ''2-bedroom'' \<longrightarrow>
        rentalIncome rk active cfg = Inr (rentalEstimate (twoBed (aduPricing entry))) \<and>
        basePrice_adu rk active cfg = Inr (basePrice (twoBed (aduPricing entry)))) \<and>
     (size_cfg cfg' = size_cfg cfg \<longrightarrow>
        rentalIncome rk active cfg' = rentalIncome rk active cfg \<and>
        basePrice_adu rk active cfg' = basePrice_adu rk active cfg)"
  using assms
  by (simp add: rentalIncome_def basePrice_adu_def lookupKnowledge_def pricingOf_def
      switchSize_def)

lemma pricing_follows_size_example:
  "rentalIncome sampleKnowledge ''ON'' (config initialADU) = Inr ''$1,600 - $1,900'' \<and>
   basePrice_adu sampleKnowledge ''ON'' (config initialADU) = Inr ''$145,000'' \<and>
   rentalIncome sampleKnowledge ''BC'' (config (runADU (locationIn ''BC'') [ClickSizeButton 1]))
     = Inr ''$2,500'' \<and>
   basePrice_adu sampleKnowledge ''BC'' (config (runADU (locationIn ''BC'') [ClickSizeButton 1]))
     = Inr ''$200,000'' \<and>
   rentalIncome sampleKnowledge ''BC''
     (config (runADU (locationIn ''BC'') [ClickSizeButton 2, ClickAddonButton 0]))
     = Inr ''$3,100'' \<and>
   basePrice_adu sampleKnowledge ''BC''
     (config (runADU (locationIn ''BC'') [ClickSizeButton 2, ClickAddonButton 0]))
     = Inr ''$260,000'' \<and>
   rentalIncome sampleKnowledge ''BC''
     (config (runADU (locationIn ''BC'') [ClickSizeButton 2, ClickAddonButton 0]))
     = rentalIncome sampleKnowledge ''BC''
         (config (runADU (locationIn ''BC'') [ClickSizeButton 2]))"
proof -
  have on: "sampleKnowledge ''ON'' = Some entryON" and bc: "sampleKnowledge ''BC'' = Some entryBC"
    by (simp_all add: sampleKnowledge_def)
  have s0: "size_cfg (config initialADU) = ''studio''"
    by (simp add: initialADU_def)
  have s1: "size_cfg (config (runADU (locationIn ''BC'') [ClickSizeButton 1])) = ''1-bedroom''"
    by (simp add: runADU_def sizeOptions_def)
  have s2: "size_cfg (config (runADU (locationIn ''BC'') [ClickSizeButton 2])) = ''2-bedroom''"
    by (simp add: runADU_def sizeOptions_def)
  have s3: "size_cfg (config (runADU (locationIn ''BC'') [ClickSizeButton 2, ClickAddonButton 0]))
      = ''2-bedroom''"
    by (simp add: runADU_def sizeOptions_def addonOptions_def)
  note studio = pricing_follows_size [of sampleKnowledge "''ON''" entryON "config initialADU"
      "config initialADU", OF on, unfolded s0]
  note oneBed = pricing_follows_size [of sampleKnowledge "''BC''" entryBC
      "config (runADU (locationIn ''BC'') [ClickSizeButton 1])"
      "config (runADU (locationIn ''BC'') [ClickSizeButton 1])", OF bc, unfolded s1]
  note twoBed = pricing_follows_size [of sampleKnowledge "''BC''" entryBC
      "config (runADU (locationIn ''BC'') [ClickSizeButton 2])"
      "config (runADU (locationIn ''BC'') [ClickSizeButton 2, ClickAddonButton 0])",
      OF bc, unfolded s2 s3]
  show ?thesis
    using studio oneBed twoBed
    by (simp add: entryON_def entryBC_def)
qed

text \<open>
  Claim C6. The rental income and the base price are those of the tier that the unit size
  selects, for every active region. That holds for an active region with an entry in the
  table (the lemma above). The active region can also be a name inherited from
  \<^verbatim>\<open>Object.prototype\<close>, which has no entry: then no tier is selected, and for each
  of the three sizes both lookups throw a TypeError.
\<close>

theorem pricing_inherited_region_throws:
  "activeRegion sampleKnowledge (locationIn ''valueOf'') = ''valueOf'' \<and>
   sampleKnowledge ''valueOf'' = None \<and>
   rentalIncome sampleKnowledge ''valueOf'' (config (runADU (locationIn ''valueOf'') []))
     = Inl TypeError \<and>
   basePrice_adu sampleKnowledge ''valueOf'' (config (runADU (locationIn ''valueOf'') []))
     = Inl TypeError \<and>
   rentalIncome sampleKnowledge ''valueOf''
     (config (runADU (locationIn ''valueOf'') [ClickSizeButton 1])) = Inl TypeError \<and>
   basePrice_adu sampleKnowledge ''valueOf''
     (config (runADU (locationIn ''valueOf'') [ClickSizeButton 1])) = Inl TypeError \<and>
   rentalIncome sampleKnowledge ''valueOf''
     (config (runADU (locationIn ''valueOf'') [ClickSizeButton 2])) = Inl TypeError \<and>
   basePrice_adu sampleKnowledge ''valueOf''
     (config (runADU (locationIn ''valueOf'') [ClickSizeButton 2])) = Inl TypeError"
  by (simp add: activeRegion_def hasProperty_def objectPrototypeKeys_def sampleKnowledge_def
      locationIn_def rentalIncome_def basePrice_adu_def runADU_def sizeOptions_def
      lookupKnowledge_def pricingOf_def switchSize_def initialADU_def dom_def)

subsection \<open>renderRentalPrice\<close>

lemma splitOn_no_sep: "sep \<notin> set s \<Longrightarrow> splitOn sep s = [s]"
  by (induction s) auto

lemma splitOn_not_Nil: "splitOn sep s \<noteq> []"
  by (induction s) (auto split: list.splits)

lemma splitOn_first: "sep \<notin> set a \<Longrightarrow> splitOn sep (a @ sep # rest) = a # splitOn sep rest"
  by (induction a) auto

text \<open>\<^const>\<open>trim\<close> removes white space at both ends and nothing else.\<close>

lemma trim_ends:
  assumes "trim s \<noteq> []"
  shows "\<not> isWhiteSpace (hd (trim s))" and "\<not> isWhiteSpace (last (trim s))"
proof -
  let ?d = "dropWhile isWhiteSpace s"
  let ?e = "dropWhile isWhiteSpace (rev ?d)"
  from assms have e: "?e \<noteq> []" by (simp add: trim_def)
  have d: "?d \<noteq> []"
  proof
    assume a: "?d = []"
    have "?e = []" unfolding a by simp
    with e show False by blast
  qed
  have "\<not> isWhiteSpace (hd ?e)" using e by (rule hd_dropWhile)
  then show "\<not> isWhiteSpace (last (trim s))"
    using e by (simp add: trim_def last_rev)
  have "last ?e = last (takeWhile isWhiteSpace (rev ?d) @ ?e)"
    using last_appendR [OF e, of "takeWhile isWhiteSpace (rev ?d)"] by (rule sym)
  also have "\<dots> = last (rev ?d)" by (simp only: takeWhile_dropWhile_id)
  also have "\<dots> = hd ?d" using d by (simp only: last_rev)
  finally have "hd (trim s) = hd ?d"
    using e by (simp add: trim_def hd_rev)
  moreover have "\<not> isWhiteSpace (hd ?d)" using d by (rule hd_dropWhile)
  ultimately show "\<not> isWhiteSpace (hd (trim s))" by simp
qed

lemma trim_middle:
  "\<exists>l r. s = l @ trim s @ r \<and> (\<forall>c \<in> set l. isWhiteSpace c) \<and> (\<forall>c \<in> set r. isWhiteSpace c)"
proof -
  let ?l = "takeWhile isWhiteSpace s"
  let ?d = "dropWhile isWhiteSpace s"
  let ?r = "rev (takeWhile isWhiteSpace (rev ?d))"
  have "?d = rev (rev ?d)" by simp
  also have "\<dots> = rev (takeWhile isWhiteSpace (rev ?d) @ dropWhile isWhiteSpace (rev ?d))"
    by (simp only: takeWhile_dropWhile_id)
  also have "\<dots> = trim s @ ?r"
    by (simp only: rev_append trim_def)
  finally have d: "?d = trim s @ ?r" .
  have "s = ?l @ ?d" by simp
  also have "\<dots> = ?l @ trim s @ ?r" using d by simp
  finally have "s = ?l @ trim s @ ?r" .
  moreover have "\<forall>c \<in> set ?l. isWhiteSpace c" by (auto dest: set_takeWhileD)
  moreover have "\<forall>c \<in> set ?r. isWhiteSpace c" by (auto dest: set_takeWhileD)
  ultimately show ?thesis by blast
qed

lemma index_simps: "index (x # xs) 0 = Some x" "index (x # y # ys) (Suc 0) = Some y"
  by (simp_all add: index_def)

text \<open>
  Claim C7. A price without a dash is rendered verbatim. A price with a dash is rendered
  as two values: the trimmed text before the first dash, and the trimmed text between the
  first dash and the second one, or the end when there is no second dash; what follows a
  second dash is dropped.
\<close>

theorem renderRentalPrice_format:
  "(CHR ''-'' \<notin> set price \<longrightarrow> renderRentalPrice price = Inr (OneLine price)) \<and>
   (CHR ''-'' \<notin> set a \<and> CHR ''-'' \<notin> set b \<longrightarrow>
      renderRentalPrice (a @ ''-'' @ b) = Inr (TwoLines (trim a) (trim b)) \<and>
      renderRentalPrice (a @ ''-'' @ b @ ''-'' @ rest) = Inr (TwoLines (trim a) (trim b)))"
proof -
  have one: "CHR ''-'' \<notin> set price \<Longrightarrow> renderRentalPrice price = Inr (OneLine price)"
    by (simp add: renderRentalPrice_def)
  have two: "renderRentalPrice (a @ ''-'' @ b) = Inr (TwoLines (trim a) (trim b))"
    if "CHR ''-'' \<notin> set a" "CHR ''-'' \<notin> set b"
  proof -
    have "splitOn CHR ''-'' (a @ CHR ''-'' # b) = [a, b]"
      using that by (simp add: splitOn_first splitOn_no_sep)
    then show ?thesis
      by (simp add: renderRentalPrice_def index_simps)
  qed
  have three: "renderRentalPrice (a @ ''-'' @ b @ ''-'' @ rest) = Inr (TwoLines (trim a) (trim b))"
    if "CHR ''-'' \<notin> set a" "CHR ''-'' \<notin> set b"
  proof -
    have "splitOn CHR ''-'' (a @ CHR ''-'' # b @ CHR ''-'' # rest)
        = a # b # splitOn CHR ''-'' rest"
      using that by (simp add: splitOn_first)
    then show ?thesis
      by (simp add: renderRentalPrice_def index_simps)
  qed
  from one two three show ?thesis by blast
qed

theorem renderRentalPrice_format_witness:
  "renderRentalPrice ''$5'' = Inr (OneLine ''$5'') \<and>
   renderRentalPrice (''$1,600 '' @ ''-'' @ '' $1,900'') = Inr (TwoLines ''$1,600'' ''$1,900'') \<and>
   renderRentalPrice (''$1,600 '' @ ''-'' @ '' $1,900'' @ ''-'' @ ''x'') = Inr (TwoLines ''$1,600'' ''$1,900'')"
  using renderRentalPrice_format [of "''$5''" "''$1,600 ''" "'' $1,900''" "''x''"]
  by (simp add: trim_def isWhiteSpace_def)

subsection \<open>Reachable states of ADUSection\<close>

lemma stepADU_size:
  "size_cfg (config s) \<in> set sizeOptions \<Longrightarrow>
   size_cfg (config (stepADU location s ev)) \<in> set sizeOptions"
proof (cases ev)
  case (ClickAddonButton i)
  then show ?thesis
    if "size_cfg (config s) \<in> set sizeOptions"
    using that by (cases "addonOptions ! i") auto
next
  case (SpecsFetched outcome)
  then show ?thesis
    if "size_cfg (config s) \<in> set sizeOptions"
    using that by (cases outcome) (simp_all add: fetchSpecs_def)
qed auto

lemma runADU_size: "size_cfg (config (runADU location events)) \<in> set sizeOptions"
proof (induction events rule: rev_induct)
  case Nil
  show ?case by (simp add: runADU_def initialADU_def sizeOptions_def)
next
  case (snoc ev events)
  then show ?case
    using stepADU_size [of "runADU location events" location ev]
    by (simp add: runADU_def)
qed

lemma default_case_unreachable:
  "switchSize (size_cfg (config (runADU location events))) \<noteq> CaseDefault"
  using runADU_size [of location events]
  by (auto simp: sizeOptions_def switchSize_def)

lemma default_entry_unused:
  assumes "rk ''ON'' = Some on"
  shows "\<not> takesDefaultEntry rk (activeRegion rk location)"
  using assms
  by (auto simp: takesDefaultEntry_def activeRegion_def hasProperty_def lookupKnowledge_def
      split: option.splits)

text \<open>
  Claim C8. In every reachable state the unit size is one of the three handled literals,
  so the default branches are not taken, and with a table that has the key \<^verbatim>\<open>ON\<close>
  the \<^verbatim>\<open>Default\<close> entry is not used (the two lemmas above). The claim rests
  this on the active region always being a key of the table. That fails for a region code
  that names a member of \<^verbatim>\<open>Object.prototype\<close>: the active region is then not a key
  of the table, and the pricing lookups throw a TypeError.
\<close>

theorem activeRegion_not_a_key:
  "activeRegion sampleKnowledge (locationIn ''constructor'') \<notin> dom sampleKnowledge \<and>
   lookupKnowledge sampleKnowledge (activeRegion sampleKnowledge (locationIn ''constructor''))
     = Inherited \<and>
   rentalIncome sampleKnowledge (activeRegion sampleKnowledge (locationIn ''constructor''))
     (config (runADU (locationIn ''constructor'') [ClickSizeButton 2])) = Inl TypeError \<and>
   basePrice_adu sampleKnowledge (activeRegion sampleKnowledge (locationIn ''constructor''))
     (config (runADU (locationIn ''constructor'') [ClickSizeButton 2])) = Inl TypeError"
  by (simp add: activeRegion_def hasProperty_def objectPrototypeKeys_def sampleKnowledge_def
      locationIn_def rentalIncome_def basePrice_adu_def runADU_def sizeOptions_def
      lookupKnowledge_def pricingOf_def switchSize_def initialADU_def dom_def)

section \<open>Properties of the network operations\<close>

lemma consultedSolar_result: "result_s consultedSolar = sampleResult"
  by (simp add: consultedSolar_def runSolar_def handleCommercialConsult_def jsonParseSample_def)

text \<open>
  Claim C2. The consultation handlers have no static fallback. When the call fails, the
  result state stays as it was: after an earlier successful consultation the panel keeps
  showing that earlier result, and in the initial state the placeholder stays.
\<close>

theorem failed_consult_keeps_result_counterexample:
  "result_s (fst (handleCommercialConsult aiDown jsonParseSample (locationIn ''ON'')
      consultedSolar)) = sampleResult \<and>
   renderResultColumn (Some ''https://example.org/on'') (locationIn ''ON'')
     (fst (handleCommercialConsult aiDown jsonParseSample (locationIn ''ON'') consultedSolar))
     = Inr (ResultPanel [JStr ''R''] ''Ontario'' (Some ''https://example.org/on'') ''ON''
              (JStr ''5y'') (JStr ''$1'')) \<and>
   result_s (fst (handleCommercialConsult aiDown jsonParseSample (locationIn ''ON'')
      initialSolar)) = JNull \<and>
   renderResultColumn (Some ''https://example.org/on'') (locationIn ''ON'')
     (fst (handleCommercialConsult aiDown jsonParseSample (locationIn ''ON'') initialSolar))
     = Inr Placeholder \<and>
   sampleResult \<noteq> JNull"
  by (simp add: handleCommercialConsult_def aiDown_def consultedSolar_result
      renderResultColumn_def initialSolar_def sampleResult_def regionName_def locationIn_def)

lemma fetchSpecs_calls:
  "filter isNetworkCall (snd (fetchSpecs getADU location a)) =
     [GetADUConsultation (config a) location]"
  by (simp add: fetchSpecs_def Let_def split: sum.splits)

lemma handleResidentialConsult_calls:
  "filter isNetworkCall (snd (handleResidentialConsult getSolar location s)) =
     [GetSolarConsultation (resNeeds s) location]"
  by (simp add: handleResidentialConsult_def Let_def split: sum.splits)

lemma handleCommercialConsult_calls:
  "filter isNetworkCall (snd (handleCommercialConsult ai parse location s)) =
     [GenerateContent (commercialRequest location (comNeeds s))]"
  by (simp add: handleCommercialConsult_def Let_def split: sum.splits)

text \<open>
  Claim C2, amended. Each of the four operations issues exactly one call: the request
  to the geolocation service, the \<^verbatim>\<open>generateContent\<close> call, or the call to the
  consultation service. When the call fails the error is caught and logged:
  \<^verbatim>\<open>detectLocation\<close> returns its static fallback location, and the three
  consultation handlers leave the result state unchanged and clear the loading flag.
\<close>

theorem operations_catch_and_log:
  "length (filter isNetworkCall (snd (detectLocation net))) = 1 \<and>
   length (filter isNetworkCall (snd (fetchSpecs getADU location a))) = 1 \<and>
   length (filter isNetworkCall (snd (handleResidentialConsult getSolar location s))) = 1 \<and>
   length (filter isNetworkCall (snd (handleCommercialConsult ai parse location s))) = 1 \<and>
   (detectLocation_try (net ''https://ipwho.is/'') = Inl err \<longrightarrow>
      detectLocation net =
        (Inr fallbackLocation,
         [Fetch ''https://ipwho.is/'',
          ConsoleWarn ''Location detection failed. Defaulting to St. Catharines, ON.'' err])) \<and>
   (getADU (config a) location = Inl err \<longrightarrow>
      fetchSpecs getADU location a =
        (a\<lparr>loading := False\<rparr>, [GetADUConsultation (config a) location, ConsoleError err])) \<and>
   (getSolar (resNeeds s) location = Inl err \<longrightarrow>
      handleResidentialConsult getSolar location s =
        (s\<lparr>loading_s := False\<rparr>, [GetSolarConsultation (resNeeds s) location, ConsoleError err])) \<and>
   (ai (commercialRequest location (comNeeds s)) = Inl err \<longrightarrow>
      handleCommercialConsult ai parse location s =
        (s\<lparr>loading_s := False\<rparr>,
         [GenerateContent (commercialRequest location (comNeeds s)), ConsoleError err])) \<and>
   (ai (commercialRequest location (comNeeds s)) = Inr txt \<and>
    parse (case txt of None \<Rightarrow> ''undefined'' | Some t \<Rightarrow> t) = Inl err \<longrightarrow>
      handleCommercialConsult ai parse location s =
        (s\<lparr>loading_s := False\<rparr>,
         [GenerateContent (commercialRequest location (comNeeds s)), ConsoleError err]))"
proof -
  have "length (filter isNetworkCall (snd (detectLocation net))) = 1"
    by (simp add: detectLocation_effects)
  moreover have "length (filter isNetworkCall (snd (fetchSpecs getADU location a))) = 1"
    by (simp add: fetchSpecs_calls)
  moreover have
    "length (filter isNetworkCall (snd (handleResidentialConsult getSolar location s))) = 1"
    by (simp add: handleResidentialConsult_calls)
  moreover have
    "length (filter isNetworkCall (snd (handleCommercialConsult ai parse location s))) = 1"
    by (simp add: handleCommercialConsult_calls)
  moreover have "detectLocation_try (net ''https://ipwho.is/'') = Inl err \<longrightarrow>
      detectLocation net =
        (Inr fallbackLocation,
         [Fetch ''https://ipwho.is/'',
          ConsoleWarn ''Location detection failed. Defaulting to St. Catharines, ON.'' err])"
    by (simp add: detectLocation_def)
  moreover have "getADU (config a) location = Inl err \<longrightarrow>
      fetchSpecs getADU location a =
        (a\<lparr>loading := False\<rparr>, [GetADUConsultation (config a) location, ConsoleError err])"
    by (simp add: fetchSpecs_def)
  moreover have "getSolar (resNeeds s) location = Inl err \<longrightarrow>
      handleResidentialConsult getSolar location s =
        (s\<lparr>loading_s := False\<rparr>, [GetSolarConsultation (resNeeds s) location, ConsoleError err])"
    by (simp add: handleResidentialConsult_def)
  moreover have "ai (commercialRequest location (comNeeds s)) = Inl err \<longrightarrow>
      handleCommercialConsult ai parse location s =
        (s\<lparr>loading_s := False\<rparr>,
         [GenerateContent (commercialRequest location (comNeeds s)), ConsoleError err])"
    by (simp add: handleCommercialConsult_def)
  moreover have "ai (commercialRequest location (comNeeds s)) = Inr txt \<and>
    parse (case txt of None \<Rightarrow> ''undefined'' | Some t \<Rightarrow> t) = Inl err \<longrightarrow>
      handleCommercialConsult ai parse location s =
        (s\<lparr>loading_s := False\<rparr>,
         [GenerateContent (commercialRequest location (comNeeds s)), ConsoleError err])"
    by (simp add: handleCommercialConsult_def)
  ultimately show ?thesis by blast
qed

theorem operations_catch_and_log_witness:
  "detectLocation netOffline =
     (Inr fallbackLocation,
      [Fetch ''https://ipwho.is/'',
       ConsoleWarn ''Location detection failed. Defaulting to St. Catharines, ON.''
         (Rejected ''Failed to fetch'')]) \<and>
   fetchSpecs serviceDown (locationIn ''ON'') initialADU =
     (initialADU, [GetADUConsultation (config initialADU) (locationIn ''ON''),
                   ConsoleError (Rejected ''503'')]) \<and>
   handleResidentialConsult serviceDown (locationIn ''ON'') initialSolar =
     (initialSolar, [GetSolarConsultation (resNeeds initialSolar) (locationIn ''ON''),
                     ConsoleError (Rejected ''503'')]) \<and>
   handleCommercialConsult aiDown jsonParseSample (locationIn ''ON'') initialSolar =
     (initialSolar,
      [GenerateContent (commercialRequest (locationIn ''ON'') (comNeeds initialSolar)),
       ConsoleError (Rejected ''503'')]) \<and>
   handleCommercialConsult (aiAnswers ''oops'') jsonParseSample (locationIn ''ON'') initialSolar =
     (initialSolar,
      [GenerateContent (commercialRequest (locationIn ''ON'') (comNeeds initialSolar)),
       ConsoleError SyntaxError])"
proof -
  have off: "detectLocation_try (netOffline ''https://ipwho.is/'') = Inl (Rejected ''Failed to fetch'')"
    by (simp add: detectLocation_try_def netOffline_def)
  have a: "initialADU\<lparr>loading := False\<rparr> = initialADU"
    by (simp add: initialADU_def)
  have s: "initialSolar\<lparr>loading_s := False\<rparr> = initialSolar"
    by (simp add: initialSolar_def)
  have p: "jsonParseSample ''oops'' = Inl SyntaxError"
    by (simp add: jsonParseSample_def sampleText_def)
  show ?thesis
    using operations_catch_and_log [of netOffline serviceDown "locationIn ''ON''" initialADU
        serviceDown initialSolar aiDown jsonParseSample "Rejected ''Failed to fetch''"]
      operations_catch_and_log [of netOffline serviceDown "locationIn ''ON''" initialADU
        serviceDown initialSolar aiDown jsonParseSample "Rejected ''503''"]
      operations_catch_and_log [of netOffline serviceDown "locationIn ''ON''" initialADU
        serviceDown initialSolar "aiAnswers ''oops''" jsonParseSample SyntaxError "Some ''oops''"]
    by (simp add: off a s p serviceDown_def aiDown_def aiAnswers_def)
qed

subsection \<open>The commercial consultation\<close>

lemma renderResultColumn_falsy:
  "\<not> truthy (result_s s) \<Longrightarrow> renderResultColumn link location s = Inr Placeholder"
  by (simp add: renderResultColumn_def)

lemma getProp_array_truthy: "getProp v k = Inr (JArr recs) \<Longrightarrow> truthy v"
  by (cases v) simp_all

lemma getProp_truthy: "truthy v \<Longrightarrow> \<exists>w. getProp v k = Inr w"
  by (cases v) simp_all

lemma renderResultColumn_panel:
  assumes "getProp (result_s s) ''recommendations'' = Inr (JArr recs)"
    and "getProp (result_s s) ''roiEstimate'' = Inr roi"
    and "getProp (result_s s) ''estimatedCostRange'' = Inr cost"
  shows "renderResultColumn link location s =
     (if list_all validChild recs \<and> validChild roi \<and> validChild cost
      then Inr (ResultPanel recs (regionName (region location)) link (region location) roi cost)
      else Inl (Error ''Objects are not valid as a React child''))"
  using assms getProp_array_truthy [OF assms(1)]
  by (simp add: renderResultColumn_def)

lemma renderResultColumn_no_array:
  assumes "truthy (result_s s)"
    and "getProp (result_s s) ''recommendations'' = Inr v" and "\<not> isArray v"
  shows "renderResultColumn link location s = Inl TypeError"
  using assms by (cases v) (simp_all add: renderResultColumn_def)

lemma handleCommercialConsult_result:
  assumes "ai (commercialRequest location (comNeeds s)) = Inr txt"
    and "parse (case txt of None \<Rightarrow> ''undefined'' | Some t \<Rightarrow> t) = Inr parsed"
  shows "result_s (fst (handleCommercialConsult ai parse location s)) = parsed"
  using assms by (simp add: handleCommercialConsult_def)

text \<open>
  Claim C4. The request is as the claim says, but the displayed result is not always the
  parse of the response text. A text that parses to an object without a
  \<^verbatim>\<open>recommendations\<close> array, here the empty object, becomes the result state, and
  the panel then throws on \<^verbatim>\<open>result.recommendations.map\<close>: nothing is displayed.
\<close>

theorem empty_object_result_counterexample:
  "result_s (fst (handleCommercialConsult (aiAnswers ''{}'') jsonParseSample
      (locationIn ''ON'') initialSolar)) = JObj [] \<and>
   renderResultColumn (Some ''https://example.org/on'') (locationIn ''ON'')
     (fst (handleCommercialConsult (aiAnswers ''{}'') jsonParseSample
        (locationIn ''ON'') initialSolar)) = Inl TypeError"
  by (simp add: handleCommercialConsult_def aiAnswers_def jsonParseSample_def sampleText_def
      renderResultColumn_def)

text \<open>
  Claim C4, amended. Every commercial consultation issues one \<^verbatim>\<open>generateContent\<close>
  call. Its request carries the prompt, the MIME type \<^verbatim>\<open>application/json\<close> and an
  object schema whose properties and required fields are exactly summary, recommendations,
  estimatedCostRange and roiEstimate. When the call resolves and its text parses, the
  result state is the parsed value. The column shows the placeholder when that value is
  falsy; it shows the value's recommendations, ROI estimate and cost range when it has a
  \<^verbatim>\<open>recommendations\<close> array and none of these is or holds a plain object; the render
  throws when one of them does, and when the value is truthy without a
  \<^verbatim>\<open>recommendations\<close> array.
\<close>

theorem handleCommercialConsult_request:
  "filter isNetworkCall (snd (handleCommercialConsult ai parse location s)) =
     [GenerateContent (commercialRequest location (comNeeds s))] \<and>
   contents (commercialRequest location (comNeeds s)) = commercialPrompt location (comNeeds s) \<and>
   responseMimeType (config_gen (commercialRequest location (comNeeds s))) = ''application/json'' \<and>
   schemaType (responseSchema (config_gen (commercialRequest location (comNeeds s)))) = OBJECT \<and>
   map fst (properties (responseSchema (config_gen (commercialRequest location (comNeeds s))))) =
     [''summary'', ''recommendations'', ''estimatedCostRange'', ''roiEstimate''] \<and>
   required (responseSchema (config_gen (commercialRequest location (comNeeds s)))) =
     [''summary'', ''recommendations'', ''estimatedCostRange'', ''roiEstimate''] \<and>
   (ai (commercialRequest location (comNeeds s)) = Inr txt \<and>
    parse (case txt of None \<Rightarrow> ''undefined'' | Some t \<Rightarrow> t) = Inr parsed \<longrightarrow>
      result_s (fst (handleCommercialConsult ai parse location s)) = parsed \<and>
      (\<not> truthy parsed \<longrightarrow>
         renderResultColumn link location (fst (handleCommercialConsult ai parse location s))
           = Inr Placeholder) \<and>
      (getProp parsed ''recommendations'' = Inr (JArr recs) \<and>
       getProp parsed ''roiEstimate'' = Inr roi \<and>
       getProp parsed ''estimatedCostRange'' = Inr cost \<and>
       list_all validChild recs \<and> validChild roi \<and> validChild cost \<longrightarrow>
         renderResultColumn link location (fst (handleCommercialConsult ai parse location s))
           = Inr (ResultPanel recs (regionName (region location)) link (region location)
                    roi cost)) \<and>
      (getProp parsed ''recommendations'' = Inr (JArr recs) \<and>
       getProp parsed ''roiEstimate'' = Inr roi \<and>
       getProp parsed ''estimatedCostRange'' = Inr cost \<and>
       \<not> (list_all validChild recs \<and> validChild roi \<and> validChild cost) \<longrightarrow>
         renderResultColumn link location (fst (handleCommercialConsult ai parse location s))
           = Inl (Error ''Objects are not valid as a React child'')) \<and>
      (truthy parsed \<and> getProp parsed ''recommendations'' = Inr other \<and> \<not> isArray other \<longrightarrow>
         renderResultColumn link location (fst (handleCommercialConsult ai parse location s))
           = Inl TypeError))"
proof -
  let ?s = "fst (handleCommercialConsult ai parse location s)"
  have request:
    "contents (commercialRequest location (comNeeds s)) = commercialPrompt location (comNeeds s)"
    "responseMimeType (config_gen (commercialRequest location (comNeeds s))) = ''application/json''"
    "schemaType (responseSchema (config_gen (commercialRequest location (comNeeds s)))) = OBJECT"
    "map fst (properties (responseSchema (config_gen (commercialRequest location (comNeeds s))))) =
       [''summary'', ''recommendations'', ''estimatedCostRange'', ''roiEstimate'']"
    "required (responseSchema (config_gen (commercialRequest location (comNeeds s)))) =
       [''summary'', ''recommendations'', ''estimatedCostRange'', ''roiEstimate'']"
    by (simp_all add: commercialRequest_def commercialSchema_def)
  have shown: "result_s ?s = parsed \<and>
      (\<not> truthy parsed \<longrightarrow> renderResultColumn link location ?s = Inr Placeholder) \<and>
      (getProp parsed ''recommendations'' = Inr (JArr recs) \<and>
       getProp parsed ''roiEstimate'' = Inr roi \<and>
       getProp parsed ''estimatedCostRange'' = Inr cost \<and>
       list_all validChild recs \<and> validChild roi \<and> validChild cost \<longrightarrow>
         renderResultColumn link location ?s
           = Inr (ResultPanel recs (regionName (region location)) link (region location)
                    roi cost)) \<and>
      (getProp parsed ''recommendations'' = Inr (JArr recs) \<and>
       getProp parsed ''roiEstimate'' = Inr roi \<and>
       getProp parsed ''estimatedCostRange'' = Inr cost \<and>
       \<not> (list_all validChild recs \<and> validChild roi \<and> validChild cost) \<longrightarrow>
         renderResultColumn link location ?s
           = Inl (Error ''Objects are not valid as a React child'')) \<and>
      (truthy parsed \<and> getProp parsed ''recommendations'' = Inr other \<and> \<not> isArray other \<longrightarrow>
         renderResultColumn link location ?s = Inl TypeError)"
    if ok: "ai (commercialRequest location (comNeeds s)) = Inr txt"
      "parse (case txt of None \<Rightarrow> ''undefined'' | Some t \<Rightarrow> t) = Inr parsed"
  proof -
    have r: "result_s ?s = parsed"
      using ok by (rule handleCommercialConsult_result)
    have "\<not> truthy parsed \<longrightarrow> renderResultColumn link location ?s = Inr Placeholder"
      using r by (simp add: renderResultColumn_falsy)
    moreover have "getProp parsed ''recommendations'' = Inr (JArr recs) \<and>
       getProp parsed ''roiEstimate'' = Inr roi \<and>
       getProp parsed ''estimatedCostRange'' = Inr cost \<and>
       list_all validChild recs \<and> validChild roi \<and> validChild cost \<longrightarrow>
         renderResultColumn link location ?s
           = Inr (ResultPanel recs (regionName (region location)) link (region location)
                    roi cost)"
      using renderResultColumn_panel [of ?s recs roi cost link location] r by simp
    moreover have "getProp parsed ''recommendations'' = Inr (JArr recs) \<and>
       getProp parsed ''roiEstimate'' = Inr roi \<and>
       getProp parsed ''estimatedCostRange'' = Inr cost \<and>
       \<not> (list_all validChild recs \<and> validChild roi \<and> validChild cost) \<longrightarrow>
         renderResultColumn link location ?s
           = Inl (Error ''Objects are not valid as a React child'')"
      using renderResultColumn_panel [of ?s recs roi cost link location] r by auto
    moreover have "truthy parsed \<and> getProp parsed ''recommendations'' = Inr other \<and>
        \<not> isArray other \<longrightarrow> renderResultColumn link location ?s = Inl TypeError"
      using renderResultColumn_no_array [of ?s other link location] r by simp
    ultimately show ?thesis using r by blast
  qed
  show ?thesis
    using handleCommercialConsult_calls [of ai parse location s] request shown by blast
qed

theorem handleCommercialConsult_request_witness:
  "filter isNetworkCall (snd (handleCommercialConsult (aiAnswers sampleText) jsonParseSample
      (locationIn ''ON'') initialSolar)) =
     [GenerateContent (commercialRequest (locationIn ''ON'') (comNeeds initialSolar))] \<and>
   result_s (fst (handleCommercialConsult (aiAnswers sampleText) jsonParseSample
      (locationIn ''ON'') initialSolar)) = sampleResult \<and>
   renderResultColumn (Some ''https://example.org/on'') (locationIn ''ON'')
     (fst (handleCommercialConsult (aiAnswers sampleText) jsonParseSample
        (locationIn ''ON'') initialSolar))
     = Inr (ResultPanel [JStr ''R''] ''Ontario'' (Some ''https://example.org/on'') ''ON''
              (JStr ''5y'') (JStr ''$1'')) \<and>
   renderResultColumn (Some ''https://example.org/on'') (locationIn ''ON'')
     (fst (handleCommercialConsult (aiAnswers ''null'') jsonParseSample
        (locationIn ''ON'') initialSolar)) = Inr Placeholder \<and>
   renderResultColumn (Some ''https://example.org/on'') (locationIn ''ON'')
     (fst (handleCommercialConsult (aiAnswers ''{}'') jsonParseSample
        (locationIn ''ON'') initialSolar)) = Inl TypeError"
proof -
  have p: "jsonParseSample sampleText = Inr sampleResult"
    "jsonParseSample ''null'' = Inr JNull" "jsonParseSample ''{}'' = Inr (JObj [])"
    by (simp_all add: jsonParseSample_def sampleText_def)
  have g: "getProp sampleResult ''recommendations'' = Inr (JArr [JStr ''R''])"
    "getProp sampleResult ''roiEstimate'' = Inr (JStr ''5y'')"
    "getProp sampleResult ''estimatedCostRange'' = Inr (JStr ''$1'')"
    by (simp_all add: sampleResult_def)
  show ?thesis
    using handleCommercialConsult_request [of "aiAnswers sampleText" jsonParseSample
        "locationIn ''ON''" initialSolar "Some sampleText" sampleResult
        "Some ''https://example.org/on''" "[JStr ''R'']" "JStr ''5y''" "JStr ''$1''" JUndefined]
      handleCommercialConsult_request [of "aiAnswers ''null''" jsonParseSample
        "locationIn ''ON''" initialSolar "Some ''null''" JNull
        "Some ''https://example.org/on''" "[]" JUndefined JUndefined JUndefined]
      handleCommercialConsult_request [of "aiAnswers ''{}''" jsonParseSample
        "locationIn ''ON''" initialSolar "Some ''{}''" "JObj []"
        "Some ''https://example.org/on''" "[]" JUndefined JUndefined JUndefined]
    by (simp add: aiAnswers_def p g regionName_def locationIn_def)
qed

subsection \<open>The prompt\<close>

text \<open>
  \<^const>\<open>numberToString\<close> on the initial square footage, on an integer of more than 53
  bits, and on the first integer printed in exponent notation.
\<close>

lemma numberToString_examples:
  "numberToString (Number 15000) = ''15000''"
  "numberToString (Number 0) = ''0''"
  "numberToString (Number (- 42)) = ''-42''"
  by (simp_all add: roundToDouble_def printInteger_def)

lemma numberToString_rounds: "numberToString (Number 9007199254740993) = ''9007199254740992''"
  by (simp add: roundToDouble_def printInteger_def)

lemma numberToString_exponent: "numberToString (Number (10 ^ 21)) = ''1e+21''"
  by (simp add: roundToDouble_def printInteger_def)



subsection \<open>Number inputs\<close>

lemma orElseNum_not_NaN: "orElseNum x (Number 0) \<noteq> NaN"
  by (cases x) (simp_all add: orElseNum_def)

lemma orElseNum_cases:
  "orElseNum x (Number 0) = (if x = NaN \<or> x = Number 0 then Number 0 else x)"
  by (cases x) (simp_all add: orElseNum_def)

lemma stepSolar_numbers:
  assumes "monthlyBill (resNeeds s) \<noteq> NaN" and "squareFootage (comNeeds s) \<noteq> NaN"
  shows "monthlyBill (resNeeds (stepSolar parse location s ev)) \<noteq> NaN"
    and "squareFootage (comNeeds (stepSolar parse location s ev)) \<noteq> NaN"
  using assms
  by (cases ev;
      simp add: onMonthlyBillChange_def onSquareFootageChange_def orElseNum_not_NaN
        handleResidentialConsult_def handleCommercialConsult_def Let_def split: sum.splits)+

lemma runSolar_numbers:
  "monthlyBill (resNeeds (runSolar parse location events)) \<noteq> NaN \<and>
   squareFootage (comNeeds (runSolar parse location events)) \<noteq> NaN"
proof (induction events rule: rev_induct)
  case Nil
  show ?case by (simp add: runSolar_def initialSolar_def)
next
  case (snoc ev events)
  then show ?case
    using stepSolar_numbers [of "runSolar parse location events" parse location ev]
    by (simp add: runSolar_def)
qed

text \<open>
  Claim C10. A text entered in the monthly-bill or the square-footage input stores
  \<^verbatim>\<open>parseInt\<close> of the text when that is a number other than zero, and 0 when it is
  NaN or zero. The stored values are not NaN, after a change and in every reachable state.
\<close>

theorem number_inputs_store:
  "monthlyBill (resNeeds (onMonthlyBillChange v s)) =
     (if parseInt v = NaN \<or> parseInt v = Number 0 then Number 0 else parseInt v) \<and>
   squareFootage (comNeeds (onSquareFootageChange v s)) =
     (if parseInt v = NaN \<or> parseInt v = Number 0 then Number 0 else parseInt v) \<and>
   monthlyBill (resNeeds (onMonthlyBillChange v s)) \<noteq> NaN \<and>
   squareFootage (comNeeds (onSquareFootageChange v s)) \<noteq> NaN \<and>
   monthlyBill (resNeeds (runSolar parse location events)) \<noteq> NaN \<and>
   squareFootage (comNeeds (runSolar parse location events)) \<noteq> NaN"
  using runSolar_numbers [of parse location events]
  by (simp add: onMonthlyBillChange_def onSquareFootageChange_def orElseNum_cases)

lemma parseInt_examples:
  "parseInt '''' = NaN" "parseInt ''abc'' = NaN" "parseInt ''0'' = Number 0"
  "parseInt ''42'' = Number 42" "parseInt ''-7.5'' = Number (- 7)"
  by (simp_all add: parseInt_def isWhiteSpace_def isRadixDigit_def digitValue_def digitsValue_def)

theorem number_inputs_store_witness:
  "monthlyBill (resNeeds (onMonthlyBillChange '''' initialSolar)) = Number 0 \<and>
   monthlyBill (resNeeds (onMonthlyBillChange ''abc'' initialSolar)) = Number 0 \<and>
   monthlyBill (resNeeds (onMonthlyBillChange ''0'' initialSolar)) = Number 0 \<and>
   monthlyBill (resNeeds (onMonthlyBillChange ''42'' initialSolar)) = Number 42 \<and>
   squareFootage (comNeeds (onSquareFootageChange ''-7.5'' initialSolar)) = Number (- 7)"
  using number_inputs_store [of "''''" initialSolar]
    number_inputs_store [of "''abc''" initialSolar]
    number_inputs_store [of "''0''" initialSolar]
    number_inputs_store [of "''42''" initialSolar]
    number_inputs_store [of "''-7.5''" initialSolar]
  by (simp add: parseInt_examples)

end
